theory Spec2Isabelle
  imports Complex_Main
begin

unbundle bit_operations_syntax

section \<open>The R2R ladder network of Theory/R2R/try2.py\<close>

text \<open>
  The Python source computes with floats; here every voltage and resistance is a
  \<^typ>\<open>real\<close>, so the arithmetic is the exact one the formulas denote. Python's true
  division raises \<open>ZeroDivisionError\<close> on a zero divisor, which the model keeps as a value.
  The loop index of the truth table is a Python integer, an \<^typ>\<open>int\<close>.
\<close>

subsection \<open>Errors and division\<close>

datatype py_error = ZeroDivisionError

definition truediv :: "real \<Rightarrow> real \<Rightarrow> py_error + real" where
  "truediv a b = (if b = 0 then Inl ZeroDivisionError else Inr (a / b))"

subsection \<open>The class R2RNetwork\<close>

record R2RNetwork =
  R :: real
  num_bits :: int
  speaker_load :: real

text \<open>\<open>__init__(self, r_value)\<close>: three assignments, no check of the argument.\<close>

definition init :: "real \<Rightarrow> R2RNetwork" where
  "init r_value = \<lparr>R = r_value, num_bits = 3, speaker_load = 16\<rparr>"

text \<open>\<open>calculate_thevenin_equivalent\<close> returns the pair \<open>(v_th, r_th)\<close>.\<close>

definition calculate_thevenin_equivalent ::
  "R2RNetwork \<Rightarrow> real \<Rightarrow> real \<Rightarrow> real \<Rightarrow> real \<times> real" where
  "calculate_thevenin_equivalent self v1 v2 v3 =
     (let v_th = (v1 / 2) + (v2 / 4) + (v3 / 8);
          r_th = R self
      in (v_th, r_th))"

text \<open>
  \<open>calculate_output_voltage\<close> returns \<open>(v_out, current, power)\<close>; the power is
  \<open>pwr\<close> below. The two divisions whose divisor depends on the object are the ones that
  can raise, in the order of the source: first the divider ratio, then the current.
\<close>

definition calculate_output_voltage ::
  "R2RNetwork \<Rightarrow> real \<Rightarrow> real \<Rightarrow> real \<Rightarrow> py_error + (real \<times> real \<times> real)" where
  "calculate_output_voltage self v1 v2 v3 =
     (let (v_th, r_th) = calculate_thevenin_equivalent self v1 v2 v3 in
      case truediv (speaker_load self) (r_th + speaker_load self) of
        Inl e \<Rightarrow> Inl e
      | Inr ratio \<Rightarrow>
          (let v_out = v_th * ratio in
           case truediv v_out (speaker_load self) of
             Inl e \<Rightarrow> Inl e
           | Inr current \<Rightarrow>
               (let pwr = v_out * current
                in Inr (v_out, current, pwr))))"

subsection \<open>The report\<close>

text \<open>
  Standard output is a list of printed lines, one per call of \<open>print\<close>. A line is a list
  of fragments: literal text, a number under the format \<open>.nf\<close> (\<open>Fixed n x\<close>; the truth
  table's \<open>w.nf\<close> is \<open>Padded w n x\<close>), or a number under the default format. The decimal
  rendering of a number is left to the reader of the output; the bytes of the Greek
  capital omega are those of its UTF-8 encoding.
\<close>

datatype fragment = Lit string | Fixed nat real | Padded nat nat real | Plain real

type_synonym line = "fragment list"

definition omega :: string where
  "omega = [CHR 0xCE, CHR 0xA9]"

definition banner :: line where
  "banner = [Lit (replicate 60 (CHR ''=''))]"

definition report_head :: "R2RNetwork \<Rightarrow> real \<Rightarrow> real \<Rightarrow> real \<Rightarrow> line list" where
  "report_head self v1 v2 v3 =
     [banner,
      [Lit ''R2R LADDER DAC ANALYSIS''],
      banner,
      [Lit (CHR 0x0A # ''Configuration:'')],
      [Lit ''  Base Resistance (R): '', Fixed 1 (R self / 1000), Lit ('' k'' @ omega)],
      [Lit ''  Speaker Load: '', Plain (speaker_load self), Lit ('' '' @ omega)],
      [Lit (CHR 0x0A # ''Input Voltages:'')],
      [Lit ''  V1 (MSB): '', Fixed 3 v1, Lit '' V''],
      [Lit ''  V2:       '', Fixed 3 v2, Lit '' V''],
      [Lit ''  V3 (LSB): '', Fixed 3 v3, Lit '' V'']]"

definition report_thevenin :: "real \<Rightarrow> real \<Rightarrow> line list" where
  "report_thevenin v_th r_th =
     [[Lit (CHR 0x0A # ''Thevenin Equivalent:'')],
      [Lit ''  V_th: '', Fixed 6 v_th, Lit '' V''],
      [Lit ''  R_th: '', Fixed 1 (r_th / 1000), Lit ('' k'' @ omega)]]"

definition report_output :: "real \<Rightarrow> real \<Rightarrow> real \<Rightarrow> line list" where
  "report_output v_out current pwr =
     [[Lit (CHR 0x0A # ''Output (across speaker):'')],
      [Lit ''  Voltage: '', Fixed 6 v_out, Lit '' V''],
      [Lit ''  Current: '', Fixed 6 (current * 1000), Lit '' mA''],
      [Lit ''  Power:   '', Fixed 6 (pwr * 1000), Lit '' mW''],
      banner]"

text \<open>
  \<open>display_results\<close> gives what it has printed and either the value it returns or the
  exception that ended it; the lines printed before the exception stay printed.
\<close>

definition display_results ::
  "R2RNetwork \<Rightarrow> real \<Rightarrow> real \<Rightarrow> real \<Rightarrow> line list \<times> (py_error + real)" where
  "display_results self v1 v2 v3 =
     (let (v_th, r_th) = calculate_thevenin_equivalent self v1 v2 v3;
          printed = report_head self v1 v2 v3 @ report_thevenin v_th r_th
      in case calculate_output_voltage self v1 v2 v3 of
           Inl e \<Rightarrow> (printed, Inl e)
         | Inr (v_out, current, pwr) \<Rightarrow>
             (printed @ report_output v_out current pwr, Inr v_out))"

subsection \<open>The truth table of the main program\<close>

text \<open>The format \<open>03b\<close>: binary digits, sign first, filled with zeros to three characters.\<close>

fun bin_digits :: "nat \<Rightarrow> string" where
  "bin_digits n =
     (if n < 2 then [if n = 0 then CHR ''0'' else CHR ''1'']
      else bin_digits (n div 2) @ [if n mod 2 = 0 then CHR ''0'' else CHR ''1''])"

declare bin_digits.simps [simp del]

definition zero_fill :: "nat \<Rightarrow> string \<Rightarrow> string" where
  "zero_fill w s = replicate (w - length s) (CHR ''0'') @ s"

definition format_03b :: "int \<Rightarrow> string" where
  "format_03b i =
     (if i < 0 then CHR ''-'' # zero_fill 2 (bin_digits (nat (- i)))
      else zero_fill 3 (bin_digits (nat i)))"

record truth_row =
  row_v1 :: real
  row_v2 :: real
  row_v3 :: real
  row_v_out :: real
  row_binary :: string

definition row_line :: "truth_row \<Rightarrow> line" where
  "row_line r =
     [Padded 6 1 (row_v1 r), Lit '' '', Padded 6 1 (row_v2 r), Lit '' '',
      Padded 6 1 (row_v3 r), Lit '' | '', Padded 12 6 (row_v_out r), Lit '' | '',
      Lit (replicate (6 - length (row_binary r)) (CHR '' '') @ row_binary r)]"

text \<open>
  The body of \<open>for i in range(8)\<close> at index \<open>i\<close>: the row it prints, or the exception
  raised by \<open>calculate_output_voltage\<close>.
\<close>

definition truth_table_row :: "R2RNetwork \<Rightarrow> int \<Rightarrow> py_error + truth_row" where
  "truth_table_row r2r i =
     (let v1 = (if (i AND 4) \<noteq> 0 then 5 else 0);
          v2 = (if (i AND 2) \<noteq> 0 then 5 else 0);
          v3 = (if (i AND 1) \<noteq> 0 then 5 else 0)
      in case calculate_output_voltage r2r v1 v2 v3 of
           Inl e \<Rightarrow> Inl e
         | Inr (v_out, _, _) \<Rightarrow>
             (let binary = format_03b i
              in Inr \<lparr>row_v1 = v1, row_v2 = v2, row_v3 = v3,
                      row_v_out = v_out, row_binary = binary\<rparr>))"

text \<open>
  The loop over a list of indices: the rows printed so far, and the exception, if one
  ended the loop.
\<close>

fun truth_table_loop :: "R2RNetwork \<Rightarrow> int list \<Rightarrow> truth_row list \<times> py_error option" where
  "truth_table_loop r2r [] = ([], None)"
| "truth_table_loop r2r (i # rest) =
     (case truth_table_row r2r i of
        Inl e \<Rightarrow> ([], Some e)
      | Inr row \<Rightarrow>
          (let (rows, err) = truth_table_loop r2r rest
           in (row # rows, err)))"

definition truth_table :: "R2RNetwork \<Rightarrow> truth_row list \<times> py_error option" where
  "truth_table r2r = truth_table_loop r2r [0 .. 7]"

text \<open>The main program builds its network with \<open>r_value=2000\<close>.\<close>

definition main_r2r :: R2RNetwork where
  "main_r2r = init 2000"

definition truth_table_printed :: "R2RNetwork \<Rightarrow> line list" where
  "truth_table_printed r2r = map row_line (fst (truth_table r2r))"

section \<open>Auxiliary facts\<close>

text \<open>
  What \<open>calculate_output_voltage\<close> returns when neither divisor is zero, and that it
  raises otherwise.
\<close>

lemma cov_returns:
  assumes "speaker_load self \<noteq> 0" and "R self + speaker_load self \<noteq> 0"
  shows "calculate_output_voltage self v1 v2 v3 =
     Inr ((v1 / 2 + v2 / 4 + v3 / 8) * (speaker_load self / (R self + speaker_load self)),
          (v1 / 2 + v2 / 4 + v3 / 8) * (speaker_load self / (R self + speaker_load self))
             / speaker_load self,
          (v1 / 2 + v2 / 4 + v3 / 8) * (speaker_load self / (R self + speaker_load self))
           * ((v1 / 2 + v2 / 4 + v3 / 8) * (speaker_load self / (R self + speaker_load self))
             / speaker_load self))"
  using assms
  by (simp add: calculate_output_voltage_def calculate_thevenin_equivalent_def truediv_def Let_def)

lemma cov_raises:
  assumes "speaker_load self = 0 \<or> R self + speaker_load self = 0"
  shows "calculate_output_voltage self v1 v2 v3 = Inl ZeroDivisionError"
  using assms
  by (auto simp add: calculate_output_voltage_def calculate_thevenin_equivalent_def truediv_def Let_def)

lemma init_fields:
  "R (init r_value) = r_value" "speaker_load (init r_value) = 16" "num_bits (init r_value) = 3"
  by (simp_all add: init_def)

text \<open>
  The indices of \<open>range(8)\<close>, the eight bit patterns, and the table they give.
\<close>

lemma upto_0_7: "[0..7] = [0, 1, 2, 3, 4, 5, 6, 7 :: int]"
  by (simp add: upto.simps)

lemma replicate_small:
  "replicate 2 c = [c, c]" "replicate (Suc 0) c = [c]"
  by (simp_all add: numeral_2_eq_2)

lemma format_03b_values:
  "format_03b 0 = ''000''" "format_03b 1 = ''001''" "format_03b 2 = ''010''"
  "format_03b 3 = ''011''" "format_03b 4 = ''100''" "format_03b 5 = ''101''"
  "format_03b 6 = ''110''" "format_03b 7 = ''111''"
  by (simp_all add: format_03b_def zero_fill_def bin_digits.simps replicate_small)

lemma truth_table_rows:
  assumes "speaker_load r2r \<noteq> 0" and "R r2r + speaker_load r2r \<noteq> 0"
  shows "truth_table r2r =
    ([\<lparr>row_v1 = 0, row_v2 = 0, row_v3 = 0,
       row_v_out = 0 / 8 * (speaker_load r2r / (R r2r + speaker_load r2r)),
       row_binary = ''000''\<rparr>,
      \<lparr>row_v1 = 0, row_v2 = 0, row_v3 = 5,
       row_v_out = 5 / 8 * (speaker_load r2r / (R r2r + speaker_load r2r)),
       row_binary = ''001''\<rparr>,
      \<lparr>row_v1 = 0, row_v2 = 5, row_v3 = 0,
       row_v_out = 10 / 8 * (speaker_load r2r / (R r2r + speaker_load r2r)),
       row_binary = ''010''\<rparr>,
      \<lparr>row_v1 = 0, row_v2 = 5, row_v3 = 5,
       row_v_out = 15 / 8 * (speaker_load r2r / (R r2r + speaker_load r2r)),
       row_binary = ''011''\<rparr>,
      \<lparr>row_v1 = 5, row_v2 = 0, row_v3 = 0,
       row_v_out = 20 / 8 * (speaker_load r2r / (R r2r + speaker_load r2r)),
       row_binary = ''100''\<rparr>,
      \<lparr>row_v1 = 5, row_v2 = 0, row_v3 = 5,
       row_v_out = 25 / 8 * (speaker_load r2r / (R r2r + speaker_load r2r)),
       row_binary = ''101''\<rparr>,
      \<lparr>row_v1 = 5, row_v2 = 5, row_v3 = 0,
       row_v_out = 30 / 8 * (speaker_load r2r / (R r2r + speaker_load r2r)),
       row_binary = ''110''\<rparr>,
      \<lparr>row_v1 = 5, row_v2 = 5, row_v3 = 5,
       row_v_out = 35 / 8 * (speaker_load r2r / (R r2r + speaker_load r2r)),
       row_binary = ''111''\<rparr>], None)"
  using assms
  by (simp add: truth_table_def upto_0_7 truth_table_row_def cov_returns
      format_03b_values)

lemma less_8_cases:
  "(i::nat) < 8 \<Longrightarrow> i = 0 \<or> i = 1 \<or> i = 2 \<or> i = 3 \<or> i = 4 \<or> i = 5 \<or> i = 6 \<or> i = 7"
  by arith

section \<open>The Thevenin equivalent\<close>

text \<open>
  C1. For all inputs \<open>v1\<close>, \<open>v2\<close>, \<open>v3\<close> and any network, the Thevenin voltage returned by
  \<open>calculate_thevenin_equivalent\<close> is \<open>v1/2 + v2/4 + v3/8\<close>: \<open>v1\<close> carries the largest
  weight and \<open>v3\<close> the smallest.
\<close>

theorem thevenin_voltage:
  "fst (calculate_thevenin_equivalent self v1 v2 v3) = v1 / 2 + v2 / 4 + v3 / 8"
  by (simp add: calculate_thevenin_equivalent_def)

text \<open>
  C2. For all inputs, the Thevenin resistance returned by
  \<open>calculate_thevenin_equivalent\<close> is the base resistance of the network, whatever the
  voltages; for a network built by the constructor it is the constructor's argument.
\<close>

theorem thevenin_resistance:
  "snd (calculate_thevenin_equivalent self v1 v2 v3) = R self
   \<and> snd (calculate_thevenin_equivalent (init r_value) v1 v2 v3) = r_value"
  by (simp add: calculate_thevenin_equivalent_def init_def)

section \<open>The output across the load\<close>

text \<open>
  C3. For all inputs and a network with base resistance \<open>R\<close> and load \<open>L\<close>, where
  \<open>L \<noteq> 0\<close> and \<open>R + L \<noteq> 0\<close>, \<open>calculate_output_voltage\<close> returns
  \<open>v_out = v_th * L / (R + L)\<close> with \<open>(v_th, R)\<close> the Thevenin pair of the same inputs,
  \<open>current = v_out / L\<close> and \<open>power = v_out * current\<close>.
\<close>

theorem output_voltage_formula:
  assumes "speaker_load self \<noteq> 0" and "R self + speaker_load self \<noteq> 0"
  shows "\<exists>v_out current pwr.
           calculate_output_voltage self v1 v2 v3 = Inr (v_out, current, pwr)
         \<and> v_out = fst (calculate_thevenin_equivalent self v1 v2 v3) * speaker_load self
                    / (snd (calculate_thevenin_equivalent self v1 v2 v3) + speaker_load self)
         \<and> snd (calculate_thevenin_equivalent self v1 v2 v3) = R self
         \<and> current = v_out / speaker_load self
         \<and> pwr = v_out * current"
  using assms
  by (simp add: cov_returns calculate_thevenin_equivalent_def)

text \<open>
  The main program's network with the inputs of its second example.
\<close>

theorem output_voltage_formula_witness:
  "speaker_load (init 2000) \<noteq> 0 \<and> R (init 2000) + speaker_load (init 2000) \<noteq> 0
   \<and> calculate_output_voltage (init 2000) 5 0 5 = Inr (25 / 1008, 25 / 16128, 625 / 16257024)"
  using output_voltage_formula [of "init 2000" 5 0 5]
  by (simp add: init_fields cov_returns)

text \<open>
  C6. For every network with load \<open>> 0\<close> and base resistance \<open>> 0\<close>, and for all inputs,
  \<open>calculate_output_voltage\<close> returns and its output voltage satisfies
  \<open>0 \<le> |v_out| \<le> |v_th|\<close>, where \<open>v_th\<close> is the Thevenin voltage of the same inputs.
\<close>

theorem divider_bound:
  assumes "0 < speaker_load self" and "0 < R self"
  shows "\<exists>v_out current pwr.
           calculate_output_voltage self v1 v2 v3 = Inr (v_out, current, pwr)
         \<and> 0 \<le> \<bar>v_out\<bar>
         \<and> \<bar>v_out\<bar> \<le> \<bar>fst (calculate_thevenin_equivalent self v1 v2 v3)\<bar>"
proof -
  let ?k = "speaker_load self / (R self + speaker_load self)"
  let ?v_th = "v1 / 2 + v2 / 4 + v3 / 8"
  from assms have k: "0 \<le> ?k" "?k \<le> 1" by simp_all
  have "\<bar>?v_th * ?k\<bar> = \<bar>?v_th\<bar> * ?k"
    by (simp only: abs_mult abs_of_nonneg [OF k(1)])
  also have "\<dots> \<le> \<bar>?v_th\<bar> * 1" using k by (intro mult_left_mono) simp_all
  finally have "\<bar>?v_th * ?k\<bar> \<le> \<bar>?v_th\<bar>" by simp
  with assms show ?thesis
    by (simp add: cov_returns calculate_thevenin_equivalent_def)
qed

text \<open>
  A negative input on the main program's network.
\<close>

theorem divider_bound_witness:
  "0 < speaker_load (init 2000) \<and> 0 < R (init 2000)
   \<and> calculate_output_voltage (init 2000) (-5) 0 0 = Inr (- 5 / 252, - 5 / 4032, 25 / 1016064)
   \<and> \<bar>- 5 / 252 :: real\<bar> \<le> \<bar>fst (calculate_thevenin_equivalent (init 2000) (-5) 0 0)\<bar>"
  using divider_bound [of "init 2000" "-5" 0 0]
  by (simp add: init_fields cov_returns calculate_thevenin_equivalent_def)

text \<open>
  C7. For every network with load \<open>> 0\<close> and for all inputs, the power returned by
  \<open>calculate_output_voltage\<close> is \<open>v_out * current\<close>, is \<open>v_out\<^sup>2 / load\<close>, and is not
  negative. The call returns unless \<open>R + load = 0\<close>, where it raises
  \<open>ZeroDivisionError\<close> and returns no power.
\<close>

theorem power_nonnegative:
  assumes "0 < speaker_load self"
  shows "(R self + speaker_load self \<noteq> 0 \<longrightarrow>
            (\<exists>v_out current pwr.
               calculate_output_voltage self v1 v2 v3 = Inr (v_out, current, pwr)
             \<and> pwr = v_out * current
             \<and> pwr = v_out ^ 2 / speaker_load self
             \<and> 0 \<le> pwr))
       \<and> (R self + speaker_load self = 0 \<longrightarrow>
            calculate_output_voltage self v1 v2 v3 = Inl ZeroDivisionError)"
proof (cases "R self + speaker_load self = 0")
  case True
  then show ?thesis by (simp add: cov_raises)
next
  case False
  let ?v_out = "(v1 / 2 + v2 / 4 + v3 / 8)
                  * (speaker_load self / (R self + speaker_load self))"
  from assms False have ret: "calculate_output_voltage self v1 v2 v3
      = Inr (?v_out, ?v_out / speaker_load self, ?v_out * (?v_out / speaker_load self))"
    by (simp add: cov_returns)
  have sq: "?v_out * (?v_out / speaker_load self) = ?v_out ^ 2 / speaker_load self"
    by (simp add: power2_eq_square)
  have "0 \<le> ?v_out ^ 2 / speaker_load self"
    using assms by (intro divide_nonneg_pos zero_le_power2)
  with sq have "0 \<le> ?v_out * (?v_out / speaker_load self)" by simp
  with False sq show ?thesis unfolding ret by blast
qed

text \<open>
  Both cases: the main program's network, and a network whose base resistance is \<open>-16\<close>.
\<close>

theorem power_nonnegative_witness:
  "0 < speaker_load (init 2000) \<and> R (init 2000) + speaker_load (init 2000) \<noteq> 0
   \<and> calculate_output_voltage (init 2000) (-5) 0 0 = Inr (- 5 / 252, - 5 / 4032, 25 / 1016064)
   \<and> (25 / 1016064 :: real) = (- 5 / 252) ^ 2 / speaker_load (init 2000)
   \<and> 0 < speaker_load (init (-16)) \<and> R (init (-16)) + speaker_load (init (-16)) = 0
   \<and> calculate_output_voltage (init (-16)) 5 5 5 = Inl ZeroDivisionError"
  using power_nonnegative [of "init 2000" "-5" 0 0] power_nonnegative [of "init (-16)" 5 5 5]
  by (simp add: init_fields cov_returns power2_eq_square)

section \<open>The first end-to-end scenario\<close>

text \<open>
  With \<open>R = 2000\<close>, load 16 and inputs \<open>(5, 5, 5)\<close> the output voltage is \<open>5/144\<close>,
  about 0.034722; it is further than \<open>10\<^sup>-\<^sup>6\<close> from 0.034781.
\<close>

theorem scenario_1_counterexample:
  "calculate_output_voltage (init 2000) 5 5 5 = Inr (5 / 144, 5 / 2304, 25 / 331776)
   \<and> 1 / 1000000 < \<bar>5 / 144 - 0.034781 :: real\<bar>"
  by (simp add: cov_returns init_def)

text \<open>
  C5, amended. With \<open>R = 2000\<close> and load 16, inputs \<open>(5, 5, 5)\<close> give a Thevenin voltage
  of exactly 4.375 and an output voltage of \<open>4.375 * 16 / (2000 + 16)\<close>, which is 0.034722
  to within \<open>10\<^sup>-\<^sup>6\<close>.
\<close>

theorem scenario_1:
  "calculate_thevenin_equivalent (init 2000) 5 5 5 = (4.375, 2000)
   \<and> calculate_output_voltage (init 2000) 5 5 5
       = Inr (4.375 * 16 / (2000 + 16), 4.375 * 16 / (2000 + 16) / 16,
              4.375 * 16 / (2000 + 16) * (4.375 * 16 / (2000 + 16) / 16))
   \<and> \<bar>4.375 * 16 / (2000 + 16) - 0.034722 :: real\<bar> \<le> 1 / 1000000"
  by (simp add: cov_returns init_def calculate_thevenin_equivalent_def)

section \<open>The constructor\<close>

text \<open>
  The constructor accepts the base resistance \<open>-16\<close>: it builds the network, whose
  base and load resistances sum to zero, and the division by zero happens later, in
  \<open>calculate_output_voltage\<close>.
\<close>

theorem constructor_accepts_counterexample:
  "init (-16) = \<lparr>R = -16, num_bits = 3, speaker_load = 16\<rparr>
   \<and> R (init (-16)) \<le> 0
   \<and> R (init (-16)) + speaker_load (init (-16)) = 0
   \<and> calculate_output_voltage (init (-16)) 5 5 5 = Inl ZeroDivisionError"
  by (simp add: init_def cov_raises)

text \<open>
  C8, amended. The constructor checks nothing: for every \<open>r_value\<close>, also zero or
  negative, it builds the network with base resistance \<open>r_value\<close>, three bits and load
  16. A bad configuration shows only later: \<open>calculate_output_voltage\<close> on the built
  network raises \<open>ZeroDivisionError\<close> exactly when \<open>r_value = -16\<close>, and returns a result
  for every other \<open>r_value\<close>.
\<close>

theorem constructor_no_validation:
  "init r_value = \<lparr>R = r_value, num_bits = 3, speaker_load = 16\<rparr>
   \<and> (calculate_output_voltage (init r_value) v1 v2 v3 = Inl ZeroDivisionError
        \<longleftrightarrow> r_value = - 16)
   \<and> (r_value \<noteq> - 16 \<longrightarrow>
        (\<exists>out. calculate_output_voltage (init r_value) v1 v2 v3 = Inr out))"
proof (cases "r_value = - 16")
  case True
  then show ?thesis by (simp add: init_def cov_raises)
next
  case False
  then have "R (init r_value) + speaker_load (init r_value) \<noteq> 0"
    by (simp add: init_def)
  moreover have "speaker_load (init r_value) \<noteq> 0" by (simp add: init_def)
  ultimately show ?thesis using False by (simp add: cov_returns) (simp add: init_def)
qed

text \<open>
  A negative base resistance that is built and computes: the output exceeds the source.
\<close>

theorem constructor_no_validation_witness:
  "init (-5) = \<lparr>R = -5, num_bits = 3, speaker_load = 16\<rparr>
   \<and> (-5 :: real) \<noteq> - 16
   \<and> calculate_output_voltage (init (-5)) 5 5 5 \<noteq> Inl ZeroDivisionError
   \<and> calculate_output_voltage (init (-5)) 5 5 5 = Inr (70 / 11, 35 / 88, 1225 / 484)"
  using constructor_no_validation [of "-5" 5 5 5]
  by (simp add: init_def cov_returns)

section \<open>The report\<close>

text \<open>
  C9. For all inputs and any network, what \<open>display_results\<close> returns is the output
  voltage that \<open>calculate_output_voltage\<close> computes for the same inputs and network;
  where that call raises, \<open>display_results\<close> raises the same exception.
\<close>

theorem display_results_returns_v_out:
  "snd (display_results self v1 v2 v3)
     = map_sum id fst (calculate_output_voltage self v1 v2 v3)"
  by (simp add: display_results_def calculate_thevenin_equivalent_def Let_def
      split: sum.split prod.split)

section \<open>The truth table\<close>

text \<open>
  C4. The truth-table loop produces exactly 8 rows, one for each \<open>i\<close> from 0 to 7 in
  ascending order, with the bit patterns \<open>000\<close> to \<open>111\<close> (the three-character
  zero-filled binary form of \<open>i\<close>); row \<open>i\<close> has \<open>v1 = 5\<close> if bit 2 of \<open>i\<close> is set and
  \<open>0\<close> otherwise, \<open>v2\<close> likewise from bit 1 and \<open>v3\<close> from bit 0, and its output voltage
  is the one \<open>calculate_output_voltage\<close> returns for these inputs. This holds for
  every network on which the two divisions are defined, the main program's among them.
\<close>

theorem truth_table_enumeration:
  assumes "speaker_load r2r \<noteq> 0" and "R r2r + speaker_load r2r \<noteq> 0"
  shows "snd (truth_table r2r) = None
    \<and> length (fst (truth_table r2r)) = 8
    \<and> map row_binary (fst (truth_table r2r)) =
        [''000'', ''001'', ''010'', ''011'', ''100'', ''101'', ''110'', ''111'']
    \<and> (\<forall>i < 8.
          row_binary (fst (truth_table r2r) ! i) = format_03b (int i)
        \<and> row_v1 (fst (truth_table r2r) ! i) = (if bit (int i) 2 then 5 else 0)
        \<and> row_v2 (fst (truth_table r2r) ! i) = (if bit (int i) 1 then 5 else 0)
        \<and> row_v3 (fst (truth_table r2r) ! i) = (if bit (int i) 0 then 5 else 0)
        \<and> calculate_output_voltage r2r
             (row_v1 (fst (truth_table r2r) ! i))
             (row_v2 (fst (truth_table r2r) ! i))
             (row_v3 (fst (truth_table r2r) ! i))
           = Inr (row_v_out (fst (truth_table r2r) ! i),
                  row_v_out (fst (truth_table r2r) ! i) / speaker_load r2r,
                  row_v_out (fst (truth_table r2r) ! i)
                    * (row_v_out (fst (truth_table r2r) ! i) / speaker_load r2r)))"
proof -
  note rows = truth_table_rows [OF assms]
  have a: "snd (truth_table r2r) = None" by (simp add: rows)
  have b: "length (fst (truth_table r2r)) = 8" by (simp add: rows)
  have c: "map row_binary (fst (truth_table r2r)) =
        [''000'', ''001'', ''010'', ''011'', ''100'', ''101'', ''110'', ''111'']"
    by (simp add: rows)
  have d: "row_binary (fst (truth_table r2r) ! i) = format_03b (int i)
        \<and> row_v1 (fst (truth_table r2r) ! i) = (if bit (int i) 2 then 5 else 0)
        \<and> row_v2 (fst (truth_table r2r) ! i) = (if bit (int i) 1 then 5 else 0)
        \<and> row_v3 (fst (truth_table r2r) ! i) = (if bit (int i) 0 then 5 else 0)
        \<and> calculate_output_voltage r2r
             (row_v1 (fst (truth_table r2r) ! i))
             (row_v2 (fst (truth_table r2r) ! i))
             (row_v3 (fst (truth_table r2r) ! i))
           = Inr (row_v_out (fst (truth_table r2r) ! i),
                  row_v_out (fst (truth_table r2r) ! i) / speaker_load r2r,
                  row_v_out (fst (truth_table r2r) ! i)
                    * (row_v_out (fst (truth_table r2r) ! i) / speaker_load r2r))"
    if "i < 8" for i
    using less_8_cases [OF that] assms
    by (elim disjE)
      (simp_all add: rows format_03b_values cov_returns)
  from a b c d show ?thesis by blast
qed

text \<open>
  The table of the main program, and its row 5.
\<close>

theorem truth_table_enumeration_witness:
  "speaker_load main_r2r \<noteq> 0 \<and> R main_r2r + speaker_load main_r2r \<noteq> 0
   \<and> truth_table main_r2r =
    ([\<lparr>row_v1 = 0, row_v2 = 0, row_v3 = 0, row_v_out = 0, row_binary = ''000''\<rparr>,
      \<lparr>row_v1 = 0, row_v2 = 0, row_v3 = 5, row_v_out = 5 / 1008, row_binary = ''001''\<rparr>,
      \<lparr>row_v1 = 0, row_v2 = 5, row_v3 = 0, row_v_out = 5 / 504, row_binary = ''010''\<rparr>,
      \<lparr>row_v1 = 0, row_v2 = 5, row_v3 = 5, row_v_out = 5 / 336, row_binary = ''011''\<rparr>,
      \<lparr>row_v1 = 5, row_v2 = 0, row_v3 = 0, row_v_out = 5 / 252, row_binary = ''100''\<rparr>,
      \<lparr>row_v1 = 5, row_v2 = 0, row_v3 = 5, row_v_out = 25 / 1008, row_binary = ''101''\<rparr>,
      \<lparr>row_v1 = 5, row_v2 = 5, row_v3 = 0, row_v_out = 5 / 168, row_binary = ''110''\<rparr>,
      \<lparr>row_v1 = 5, row_v2 = 5, row_v3 = 5, row_v_out = 5 / 144, row_binary = ''111''\<rparr>],
     None)
   \<and> row_v1 (fst (truth_table main_r2r) ! 5) = (if bit (int 5) 2 then 5 else 0)
   \<and> row_binary (fst (truth_table main_r2r) ! 5) = format_03b (int 5)"
proof -
  have h1: "speaker_load main_r2r \<noteq> 0"
    and h2: "R main_r2r + speaker_load main_r2r \<noteq> 0"
    by (simp_all add: main_r2r_def init_fields)
  have rows: "truth_table main_r2r =
    ([\<lparr>row_v1 = 0, row_v2 = 0, row_v3 = 0, row_v_out = 0, row_binary = ''000''\<rparr>,
      \<lparr>row_v1 = 0, row_v2 = 0, row_v3 = 5, row_v_out = 5 / 1008, row_binary = ''001''\<rparr>,
      \<lparr>row_v1 = 0, row_v2 = 5, row_v3 = 0, row_v_out = 5 / 504, row_binary = ''010''\<rparr>,
      \<lparr>row_v1 = 0, row_v2 = 5, row_v3 = 5, row_v_out = 5 / 336, row_binary = ''011''\<rparr>,
      \<lparr>row_v1 = 5, row_v2 = 0, row_v3 = 0, row_v_out = 5 / 252, row_binary = ''100''\<rparr>,
      \<lparr>row_v1 = 5, row_v2 = 0, row_v3 = 5, row_v_out = 25 / 1008, row_binary = ''101''\<rparr>,
      \<lparr>row_v1 = 5, row_v2 = 5, row_v3 = 0, row_v_out = 5 / 168, row_binary = ''110''\<rparr>,
      \<lparr>row_v1 = 5, row_v2 = 5, row_v3 = 5, row_v_out = 5 / 144, row_binary = ''111''\<rparr>],
     None)"
    by (simp add: truth_table_rows [OF h1 h2]) (simp add: main_r2r_def init_fields)
  from truth_table_enumeration [OF h1 h2]
  have "row_v1 (fst (truth_table main_r2r) ! 5) = (if bit (int 5) 2 then 5 else 0)
      \<and> row_binary (fst (truth_table main_r2r) ! 5) = format_03b (int 5)"
    by auto
  with h1 h2 rows show ?thesis by blast
qed

text \<open>
  C10. For every base resistance \<open>r_value > 0\<close>, with the load 16 and the logic levels
  5 and 0 of the loop, the output voltage of row \<open>i\<close> is
  \<open>(5 * i / 8) * 16 / (r_value + 16)\<close>, so it increases strictly with the row index
  over \<open>0..7\<close>.
\<close>

theorem truth_table_monotone:
  assumes "0 < r_value"
  shows "snd (truth_table (init r_value)) = None
    \<and> length (fst (truth_table (init r_value))) = 8
    \<and> (\<forall>i < 8. row_v_out (fst (truth_table (init r_value)) ! i)
                   = (5 * real i / 8) * 16 / (r_value + 16))
    \<and> (\<forall>i j. i < j \<and> j < 8 \<longrightarrow>
          row_v_out (fst (truth_table (init r_value)) ! i)
            < row_v_out (fst (truth_table (init r_value)) ! j))"
proof -
  from assms have ok: "speaker_load (init r_value) \<noteq> 0"
      "R (init r_value) + speaker_load (init r_value) \<noteq> 0"
    by (simp_all add: init_fields)
  note rows = truth_table_rows [OF ok]
  have a: "snd (truth_table (init r_value)) = None" by (simp add: rows)
  have b: "length (fst (truth_table (init r_value))) = 8" by (simp add: rows)
  have c: "row_v_out (fst (truth_table (init r_value)) ! i)
             = (5 * real i / 8) * 16 / (r_value + 16)" if "i < 8" for i
    using less_8_cases [OF that]
    by (elim disjE) (simp_all add: rows init_fields)
  have d: "row_v_out (fst (truth_table (init r_value)) ! i)
             < row_v_out (fst (truth_table (init r_value)) ! j)"
    if "i < j" and "j < 8" for i j
  proof -
    from that have i8: "i < 8" by simp
    have pos: "0 < 16 / (r_value + 16)" using assms by simp
    from that have "5 * real i / 8 < 5 * real j / 8" by simp
    then have "5 * real i / 8 * (16 / (r_value + 16)) < 5 * real j / 8 * (16 / (r_value + 16))"
      using pos by (rule mult_strict_right_mono)
    then show ?thesis by (simp add: c [OF i8] c [OF that(2)])
  qed
  from a b c d show ?thesis by blast
qed

text \<open>
  The eight output voltages of the main program's table, and rows 3 and 4.
\<close>

theorem truth_table_monotone_witness:
  "(0::real) < 2000
   \<and> map row_v_out (fst (truth_table (init 2000)))
       = [0, 5 / 1008, 5 / 504, 5 / 336, 5 / 252, 25 / 1008, 5 / 168, 5 / 144]
   \<and> row_v_out (fst (truth_table (init 2000)) ! 3) = (5 * real 3 / 8) * 16 / (2000 + 16)
   \<and> row_v_out (fst (truth_table (init 2000)) ! 3) < row_v_out (fst (truth_table (init 2000)) ! 4)"
  using truth_table_monotone [of 2000]
  by (simp add: truth_table_rows init_fields)

end
